theory Spec2Isabelle
  imports Complex_Main
begin

section \<open>Values of the request body and of the OTP store\<close>

text \<open>
  A field of the parsed request body (\<^verbatim>\<open>req.body\<close>, index.js lines 63, 83 and 99) is
  modelled by the primitive values JSON can carry; \<open>JUndefined\<close> is an absent field.
  Finite numbers are real numbers. Arrays and nested objects are outside the model.
\<close>

datatype jsval = JUndefined | JNull | JBool bool | JNum real | JStr string

text \<open>The test \<^verbatim>\<open>!x\<close> of lines 64, 84 and 101 is \<open>\<not> truthy x\<close>.\<close>

fun truthy :: "jsval \<Rightarrow> bool" where
  "truthy JUndefined = False"
| "truthy JNull = False"
| "truthy (JBool b) = b"
| "truthy (JNum x) = (x \<noteq> 0)"
| "truthy (JStr s) = (s \<noteq> [])"

text \<open>
  \<^verbatim>\<open>const otpStore = {}\<close> (line 42) is an ordinary object: its own properties are the
  entries written by line 68, and every other key is looked up on \<^verbatim>\<open>Object.prototype\<close>.
  The own properties are a map from property keys to the stored integers. A property
  read yields one of four kinds of value.
\<close>

type_synonym otp_store = "string \<rightharpoonup> int"

datatype propval = PUndefined | PNum int | PFunction string | PObjectPrototype

text \<open>The methods every ordinary object inherits from \<^verbatim>\<open>Object.prototype\<close>.\<close>

definition object_prototype_methods :: "string list" where
  "object_prototype_methods =
     [''constructor'', ''hasOwnProperty'', ''isPrototypeOf'', ''propertyIsEnumerable'',
      ''toLocaleString'', ''toString'', ''valueOf'', ''__defineGetter__'',
      ''__defineSetter__'', ''__lookupGetter__'', ''__lookupSetter__'']"

text \<open>
  A read of a key that is no own property: \<^verbatim>\<open>__proto__\<close> is the accessor that returns
  \<^verbatim>\<open>Object.prototype\<close> itself, \<^verbatim>\<open>constructor\<close> is the function \<^verbatim>\<open>Object\<close>, the other
  methods are functions of their own name, and any other key is \<^verbatim>\<open>undefined\<close>.
\<close>

definition inherited :: "string \<Rightarrow> propval" where
  "inherited k =
     (if k = ''__proto__'' then PObjectPrototype
      else if k = ''constructor'' then PFunction ''Object''
      else if k \<in> set object_prototype_methods then PFunction k
      else PUndefined)"

text \<open>\<^verbatim>\<open>otpStore[k]\<close> as an expression (line 86).\<close>

definition get_prop :: "otp_store \<Rightarrow> string \<Rightarrow> propval" where
  "get_prop store k = (case store k of Some n \<Rightarrow> PNum n | None \<Rightarrow> inherited k)"

text \<open>
  \<^verbatim>\<open>otpStore[k] = n\<close> with a number \<open>n\<close> (line 68). When \<open>k\<close> is not an own property the
  assignment of \<^verbatim>\<open>__proto__\<close> runs the inherited setter, which ignores a value that is
  neither an object nor null; every other key becomes (or stays) an own property.
\<close>

definition set_prop :: "otp_store \<Rightarrow> string \<Rightarrow> int \<Rightarrow> otp_store" where
  "set_prop store k n =
     (if k = ''__proto__'' \<and> store k = None then store else store(k \<mapsto> n))"

text \<open>\<^verbatim>\<open>delete otpStore[k]\<close> (line 87) removes an own property and nothing else.\<close>

definition delete_prop :: "otp_store \<Rightarrow> string \<Rightarrow> otp_store" where
  "delete_prop store k = store(k := None)"

fun truthy_prop :: "propval \<Rightarrow> bool" where
  "truthy_prop PUndefined = False"
| "truthy_prop (PNum n) = (n \<noteq> 0)"
| "truthy_prop (PFunction f) = True"
| "truthy_prop PObjectPrototype = True"

text \<open>The text a built-in function converts to under \<^verbatim>\<open>==\<close> with a string.\<close>

definition native_source :: "string \<Rightarrow> string" where
  "native_source f = ''function '' @ f @ ''() { [native code] }''"

text \<open>
  \<^verbatim>\<open>otpStore[phone] == otp\<close> (line 86), the language's loose equality, with the value
  read from the store on the left and a body field on the right.
  A number and a string are compared after the string is converted to a number; that
  conversion (whitespace, signs, hexadecimal and exponent forms, rounding) is the
  language's and is the parameter \<open>to_number\<close>, \<open>None\<close> when the string denotes no finite
  number. A boolean is converted to 0 or 1. An object is converted to its string first:
  \<^verbatim>\<open>Object.prototype\<close> to \<^verbatim>\<open>[object Object]\<close>, a function to its source text; neither
  text denotes a number, so an object never equals a number or a boolean.
\<close>

fun loose_eq :: "(string \<Rightarrow> real option) \<Rightarrow> propval \<Rightarrow> jsval \<Rightarrow> bool" where
  "loose_eq to_number PUndefined v = (v = JUndefined \<or> v = JNull)"
| "loose_eq to_number (PNum n) (JNum x) = (real_of_int n = x)"
| "loose_eq to_number (PNum n) (JStr s) = (to_number s = Some (real_of_int n))"
| "loose_eq to_number (PNum n) (JBool b) = (n = (if b then 1 else 0))"
| "loose_eq to_number (PNum n) v = False"
| "loose_eq to_number PObjectPrototype (JStr s) = (s = ''[object Object]'')"
| "loose_eq to_number PObjectPrototype v = False"
| "loose_eq to_number (PFunction f) (JStr s) = (s = native_source f)"
| "loose_eq to_number (PFunction f) v = False"

section \<open>The OTP registry\<close>

text \<open>
  Numbers of the language are IEEE 754 doubles, and each arithmetic operation gives
  the double nearest to the exact result, a tie going to the even significand.
  \<open>to_double x\<close> is that double for a real \<open>x\<close> below the overflow threshold: a double
  has a significand of 53 bits, so in the binade of \<open>x\<close> (clamped at the least normal
  exponent, below which the doubles are evenly spaced) the doubles are the integer
  multiples of \<open>ulp x\<close>.
\<close>

definition round_even :: "real \<Rightarrow> int" where
  "round_even q =
     (if q - of_int \<lfloor>q\<rfloor> < 1/2 then \<lfloor>q\<rfloor>
      else if 1/2 < q - of_int \<lfloor>q\<rfloor> then \<lfloor>q\<rfloor> + 1
      else if even \<lfloor>q\<rfloor> then \<lfloor>q\<rfloor> else \<lfloor>q\<rfloor> + 1)"

definition binade :: "real \<Rightarrow> int" where
  "binade x = max \<lfloor>log 2 \<bar>x\<bar>\<rfloor> (- 1022)"

definition ulp :: "real \<Rightarrow> real" where
  "ulp x = 2 powr of_int (binade x - 52)"

definition to_double :: "real \<Rightarrow> real" where
  "to_double x = (if x = 0 then 0 else of_int (round_even (x / ulp x)) * ulp x)"

text \<open>
  \<^verbatim>\<open>Math.random()\<close> gives a double that is at least 0 and less than 1; the model takes
  the draw as a parameter \<open>rnd\<close> of that kind.
\<close>

definition is_draw :: "real \<Rightarrow> bool" where
  "is_draw rnd = (0 \<le> rnd \<and> rnd < 1 \<and> to_double rnd = rnd)"

text \<open>
  \<^verbatim>\<open>Math.floor(100000 + Math.random() * 900000)\<close> (line 67): the product is rounded,
  then the sum is rounded, then the floor is taken, which is exact.
\<close>

definition generate_otp :: "real \<Rightarrow> int" where
  "generate_otp rnd = \<lfloor>to_double (100000 + to_double (rnd * 900000))\<rfloor>"

text \<open>Lines 67 and 68: generate the code and assign it under the phone key.\<close>

definition otp_issue :: "real \<Rightarrow> otp_store \<Rightarrow> string \<Rightarrow> int \<times> otp_store" where
  "otp_issue rnd store phone =
     (let otp = generate_otp rnd in (otp, set_prop store phone otp))"

text \<open>Lines 86 and 87: the guard of the verify handler and the delete of its true branch.\<close>

definition otp_verify ::
  "(string \<Rightarrow> real option) \<Rightarrow> otp_store \<Rightarrow> string \<Rightarrow> jsval \<Rightarrow> bool \<times> otp_store" where
  "otp_verify to_number store phone otp =
     (if truthy_prop (get_prop store phone) \<and> loose_eq to_number (get_prop store phone) otp
      then (True, delete_prop store phone)
      else (False, store))"

section \<open>The OTP handlers\<close>

text \<open>
  A handler's JSON answer: the HTTP status, the \<^verbatim>\<open>success\<close> flag and the text of its
  \<^verbatim>\<open>message\<close> or \<^verbatim>\<open>error\<close> field (its ASCII part).
\<close>

record reply =
  status :: nat
  success :: bool
  message :: string

definition respond :: "nat \<Rightarrow> bool \<Rightarrow> string \<Rightarrow> reply" where
  "respond st ok msg = \<lparr>status = st, success = ok, message = msg\<rparr>"

text \<open>
  \<^verbatim>\<open>POST /send-otp\<close> (lines 62 to 79). The phone of the body is a string or absent
  (\<open>None\<close>). \<open>deliver\<close> is the outcome of \<^verbatim>\<open>twilioClient.messages.create\<close> for the
  destination and the code: \<open>False\<close> when the call rejects and the \<^verbatim>\<open>catch\<close> of line 75
  answers 500. The store is assigned before the message is sent.
\<close>

definition send_otp_handler ::
  "(string \<Rightarrow> int \<Rightarrow> bool) \<Rightarrow> real \<Rightarrow> otp_store \<Rightarrow> string option \<Rightarrow> reply \<times> otp_store" where
  "send_otp_handler deliver rnd store phone =
     (case phone of
        None \<Rightarrow> (respond 400 False ''Phone number is required'', store)
      | Some p \<Rightarrow>
          if p = [] then (respond 400 False ''Phone number is required'', store)
          else
            (let (otp, store') = otp_issue rnd store p in
             if deliver p otp then (respond 200 True ''OTP sent successfully'', store')
             else (respond 500 False ''Failed to send OTP'', store')))"

text \<open>
  \<^verbatim>\<open>POST /verify-otp\<close> (lines 82 to 93). \<open>jwt_sign\<close> is \<^verbatim>\<open>jwt.sign\<close> of the
  jsonwebtoken library applied to the claim \<^verbatim>\<open>{ phone }\<close> with the secret and
  \<^verbatim>\<open>expiresIn: "24h"\<close>; the second component of the result is the token of the answer,
  when there is one.
\<close>

definition verify_otp_handler ::
  "(string \<Rightarrow> real option) \<Rightarrow> (string \<Rightarrow> string) \<Rightarrow> otp_store \<Rightarrow> string option \<Rightarrow> jsval
     \<Rightarrow> reply \<times> string option \<times> otp_store" where
  "verify_otp_handler to_number jwt_sign store phone otp =
     (case phone of
        None \<Rightarrow> (respond 400 False ''Phone and OTP are required'', None, store)
      | Some p \<Rightarrow>
          if p = [] \<or> \<not> truthy otp
          then (respond 400 False ''Phone and OTP are required'', None, store)
          else
            (let (matched, store') = otp_verify to_number store p otp in
             if matched
             then (respond 200 True ''OTP verified successfully'', Some (jwt_sign p), store')
             else (respond 401 False ''Invalid OTP'', None, store')))"

section \<open>The protected route\<close>

text \<open>
  \<^verbatim>\<open>authenticateToken\<close> (lines 45 to 56). The header is absent (\<open>None\<close>) or a string.
  \<open>jwt_verify\<close> is \<^verbatim>\<open>jwt.verify\<close> with the secret: \<open>True\<close> when its callback gets no
  error. The result is the answer of a rejected request, or \<open>None\<close> when \<^verbatim>\<open>next()\<close>
  is called. \<^verbatim>\<open>authHeader.split(" ")[1]\<close> of a header that starts with \<^verbatim>\<open>Bearer \<close> is
  the text between its first space and the next one.
\<close>

definition bearer_token :: "string \<Rightarrow> string" where
  "bearer_token h = takeWhile (\<lambda>c. c \<noteq> CHR '' '') (drop 7 h)"

definition authenticateToken :: "(string \<Rightarrow> bool) \<Rightarrow> string option \<Rightarrow> reply option" where
  "authenticateToken jwt_verify authHeader =
     (case authHeader of
        None \<Rightarrow> Some (respond 401 False ''Unauthorized: Token required'')
      | Some h \<Rightarrow>
          if h = [] \<or> take 7 h \<noteq> ''Bearer ''
          then Some (respond 401 False ''Unauthorized: Token required'')
          else if jwt_verify (bearer_token h) then None
          else Some (respond 403 False ''Invalid or expired token''))"

text \<open>
  The body of \<^verbatim>\<open>POST /add-student\<close> (line 99) and the calls the handler makes on the
  data store, in the order it makes them.
\<close>

record student_body =
  b_name :: jsval
  b_phone :: jsval
  b_email :: jsval
  b_class_name :: jsval
  b_section :: jsval

datatype store_call = SelectSingle jsval jsval | InsertRow student_body

text \<open>
  What an awaited call on the store client gives: it throws (\<open>Threw\<close>, caught by line
  133), or it resolves to \<^verbatim>\<open>{ data, error }\<close>, each of them null (\<open>None\<close>) or present; of
  an error only its \<^verbatim>\<open>code\<close> is read.
\<close>

datatype 'row store_result = Threw | Resolved "'row option" "string option"

text \<open>
  The handler of \<^verbatim>\<open>POST /add-student\<close> (lines 97 to 136). \<open>select_single\<close> is the query
  of lines 107 to 111 for the phone and the email, \<open>insert_row\<close> the insert of lines 123
  to 125. The result is the answer, the \<^verbatim>\<open>data\<close> field of a successful answer, and the
  store calls made.
\<close>

definition add_student_handler ::
  "(jsval \<Rightarrow> jsval \<Rightarrow> 'row store_result) \<Rightarrow> (student_body \<Rightarrow> 'row store_result)
     \<Rightarrow> student_body \<Rightarrow> reply \<times> 'row option \<times> store_call list" where
  "add_student_handler select_single insert_row body =
     (if \<not> truthy (b_name body) \<or> \<not> truthy (b_phone body)
         \<or> \<not> truthy (b_class_name body) \<or> \<not> truthy (b_section body)
      then (respond 400 False ''All required fields must be provided.'', None, [])
      else
        (case select_single (b_phone body) (b_email body) of
           Threw \<Rightarrow>
             (respond 500 False ''Internal server error'', None,
              [SelectSingle (b_phone body) (b_email body)])
         | Resolved existingStudent checkError \<Rightarrow>
             if existingStudent \<noteq> None
             then (respond 409 False ''Student with this phone or email already exists'', None,
                   [SelectSingle (b_phone body) (b_email body)])
             else if checkError \<noteq> None \<and> checkError \<noteq> Some ''PGRST116''
             then (respond 500 False ''Database error'', None,
                   [SelectSingle (b_phone body) (b_email body)])
             else
               (case insert_row body of
                  Threw \<Rightarrow>
                    (respond 500 False ''Internal server error'', None,
                     [SelectSingle (b_phone body) (b_email body), InsertRow body])
                | Resolved data error \<Rightarrow>
                    if error \<noteq> None
                    then (respond 500 False ''Database error'', None,
                          [SelectSingle (b_phone body) (b_email body), InsertRow body])
                    else (respond 200 True ''Student added successfully'', data,
                          [SelectSingle (b_phone body) (b_email body), InsertRow body]))))"

text \<open>The route of line 96: the middleware, then the handler when \<^verbatim>\<open>next()\<close> was called.\<close>

definition add_student_route ::
  "(string \<Rightarrow> bool) \<Rightarrow> (jsval \<Rightarrow> jsval \<Rightarrow> 'row store_result)
     \<Rightarrow> (student_body \<Rightarrow> 'row store_result)
     \<Rightarrow> string option \<Rightarrow> student_body \<Rightarrow> reply \<times> 'row option \<times> store_call list" where
  "add_student_route jwt_verify select_single insert_row authHeader body =
     (case authenticateToken jwt_verify authHeader of
        Some rejected \<Rightarrow> (rejected, None, [])
      | None \<Rightarrow> add_student_handler select_single insert_row body)"

section \<open>The students table behind the store client\<close>

text \<open>
  The store client is a library outside the repository; the handler above takes its
  answers as inputs. To evaluate the handler on the contents of the table, the query of
  lines 107 to 111 is modelled from the documentation of the client: the filter
  \<^verbatim>\<open>or(phone.eq.P,email.eq.E)\<close> selects the rows whose phone column or email column
  equals the given text (here for a phone and an email given as strings), and
  \<^verbatim>\<open>.single()\<close> resolves with the row when exactly one row is selected, and with no
  data and the error code \<^verbatim>\<open>PGRST116\<close> when none or more than one is.
\<close>

record student_row =
  r_id :: nat
  r_name :: string
  r_phone :: string
  r_email :: string
  r_class_name :: string
  r_section :: string

definition or_filter :: "student_row list \<Rightarrow> jsval \<Rightarrow> jsval \<Rightarrow> student_row list" where
  "or_filter table phone email =
     filter (\<lambda>r. JStr (r_phone r) = phone \<or> JStr (r_email r) = email) table"

fun single_row :: "student_row list \<Rightarrow> student_row store_result" where
  "single_row [r] = Resolved (Some r) None"
| "single_row rows = Resolved None (Some ''PGRST116'')"

definition select_students ::
  "student_row list \<Rightarrow> jsval \<Rightarrow> jsval \<Rightarrow> student_row store_result" where
  "select_students table phone email = single_row (or_filter table phone email)"

section \<open>The invariant of the OTP store and an instance of the number conversion\<close>

text \<open>Every own property of the store holds a six-digit code.\<close>

definition store_inv :: "otp_store \<Rightarrow> bool" where
  "store_inv store = (\<forall>k n. store k = Some n \<longrightarrow> 100000 \<le> n \<and> n \<le> 999999)"

text \<open>
  The examples below instantiate the parameter \<open>to_number\<close> of \<open>loose_eq\<close> with the
  conversion of a nonempty string of ASCII digits to the number it denotes; they submit
  no other string.
\<close>

definition decimal_to_number :: "string \<Rightarrow> real option" where
  "decimal_to_number s =
     (if s \<noteq> [] \<and> list_all (\<lambda>c. 48 \<le> (of_char c :: nat) \<and> (of_char c :: nat) \<le> 57) s
      then Some (real (foldl (\<lambda>a c. 10 * a + (of_char c - 48)) 0 s))
      else None)"

section \<open>Runs of the server\<close>

text \<open>
  The store is written by the two OTP handlers only. A request carries what the handler
  reads from outside: for \<^verbatim>\<open>/send-otp\<close> the draw of \<^verbatim>\<open>Math.random()\<close>, whether the
  delivery succeeds, and the phone; for \<^verbatim>\<open>/verify-otp\<close> the phone and the code.
  \<open>serve\<close> is the store after a sequence of requests, from the empty store of line 42.
\<close>

datatype request = SendOtp real bool "string option" | VerifyOtp "string option" jsval

fun handle ::
  "(string \<Rightarrow> real option) \<Rightarrow> (string \<Rightarrow> string) \<Rightarrow> otp_store \<Rightarrow> request \<Rightarrow> otp_store" where
  "handle to_number jwt_sign store (SendOtp rnd delivered phone) =
     snd (send_otp_handler (\<lambda>to code. delivered) rnd store phone)"
| "handle to_number jwt_sign store (VerifyOtp phone otp) =
     snd (snd (verify_otp_handler to_number jwt_sign store phone otp))"

definition serve ::
  "(string \<Rightarrow> real option) \<Rightarrow> (string \<Rightarrow> string) \<Rightarrow> request list \<Rightarrow> otp_store" where
  "serve to_number jwt_sign reqs = foldl (handle to_number jwt_sign) Map.empty reqs"

text \<open>The draw of a send request is one that \<^verbatim>\<open>Math.random()\<close> can give.\<close>

fun draw_ok :: "request \<Rightarrow> bool" where
  "draw_ok (SendOtp rnd delivered phone) = is_draw rnd"
| "draw_ok (VerifyOtp phone otp) = True"

section \<open>Rounding and the range of the generated code\<close>

lemma round_even_le: "q \<le> of_int m \<Longrightarrow> round_even q \<le> m"
  unfolding round_even_def by (auto simp: not_less) linarith+

lemma round_even_ge: "of_int m \<le> q \<Longrightarrow> m \<le> round_even q"
  unfolding round_even_def by (auto simp: not_less le_floor_iff) linarith+

lemma round_even_below_half: "q < of_int m + 1/2 \<Longrightarrow> round_even q \<le> m"
  unfolding round_even_def by (auto simp: not_less) linarith+

lemma ulp_pos: "0 < ulp x"
  by (simp add: ulp_def)

lemma binade_upper: "0 < x \<Longrightarrow> x < 2 powr of_int (binade x + 1)"
proof -
  assume x: "0 < x"
  have "log 2 x < of_int (\<lfloor>log 2 x\<rfloor> + 1)" by linarith
  also have "\<dots> \<le> of_int (binade x + 1)" using x by (simp add: binade_def)
  finally have "log 2 x < of_int (binade x + 1)" .
  then show ?thesis using x by (simp add: log_less_iff)
qed

lemma binade_lower: "0 < x \<Longrightarrow> - 1022 < binade x \<Longrightarrow> 2 powr of_int (binade x) \<le> x"
proof -
  assume x: "0 < x" and b: "- 1022 < binade x"
  have "binade x = \<lfloor>log 2 x\<rfloor>" using b x by (simp add: binade_def max_def split: if_splits)
  then have "of_int (binade x) \<le> log 2 x" by simp
  then show ?thesis using x by (simp add: le_log_iff)
qed

lemma binade_le:
  assumes "0 < x" "x < 2 powr of_int (k + 1)" "- 1022 \<le> k"
  shows "binade x \<le> k"
proof -
  have "log 2 x < of_int (k + 1)" using assms(1,2) by (simp add: log_less_iff)
  then have "\<lfloor>log 2 x\<rfloor> < k + 1" unfolding floor_less_iff .
  then show ?thesis using assms(1,3) by (simp add: binade_def)
qed

lemma binade_ge:
  assumes "0 < x" "2 powr of_int k \<le> x"
  shows "k \<le> binade x"
proof -
  have "of_int k \<le> log 2 x" using assms by (simp add: le_log_iff)
  then have "k \<le> \<lfloor>log 2 x\<rfloor>" by (simp add: le_floor_iff)
  then show ?thesis using assms(1) by (simp add: binade_def)
qed

lemma to_double_nonneg: "0 \<le> x \<Longrightarrow> 0 \<le> to_double x"
proof -
  assume "0 \<le> x"
  then have "of_int 0 \<le> x / ulp x" using ulp_pos [of x] by simp
  then have "0 \<le> round_even (x / ulp x)" by (rule round_even_ge)
  then show ?thesis using ulp_pos [of x] by (simp add: to_double_def)
qed

lemma to_double_le_repr:
  assumes x: "0 < x" and le: "x \<le> of_int m * 2 powr of_int j"
    and m: "m < 2 ^ 53" and j: "- 1074 \<le> j"
  shows "to_double x \<le> of_int m * 2 powr of_int j"
proof -
  have mpos: "0 < m"
  proof (rule ccontr)
    assume "\<not> 0 < m"
    then have "of_int m * 2 powr of_int j \<le> (0::real)"
      by (simp add: mult_nonpos_nonneg)
    then show False using x le by linarith
  qed
  have "real_of_int m < real_of_int (2 ^ 53)" using m by (simp only: of_int_less_iff)
  then have "of_int m * 2 powr of_int j < (2::real) ^ 53 * 2 powr of_int j" by simp
  also have "\<dots> = 2 powr of_int (j + 52 + 1)"
    by (simp add: powr_add)
  finally have "x < 2 powr of_int (j + 52 + 1)" using le by linarith
  then have b: "binade x \<le> j + 52" using x j by (intro binade_le) auto
  define k where "k = nat (j - (binade x - 52))"
  have k: "of_int j = of_int (binade x - 52) + real k" using b by (simp add: k_def)
  have y: "of_int m * 2 powr of_int j = of_int (m * 2 ^ k) * ulp x"
    by (simp add: ulp_def k powr_add powr_realpow)
  have "x / ulp x \<le> of_int (m * 2 ^ k)"
    using le ulp_pos [of x] unfolding y by (simp add: pos_divide_le_eq)
  then have "round_even (x / ulp x) \<le> m * 2 ^ k" by (rule round_even_le)
  then have "of_int (round_even (x / ulp x)) * ulp x \<le> of_int (m * 2 ^ k) * ulp x"
    using ulp_pos [of x] by (simp only: mult_le_cancel_right_pos of_int_le_iff)
  then show ?thesis using x unfolding y by (simp add: to_double_def)
qed

lemma to_double_ge_repr:
  assumes x: "0 < x" and le: "of_int m * 2 powr of_int j \<le> x"
    and m: "2 ^ 52 \<le> m" "m < 2 ^ 53" and j: "- 1074 \<le> j"
  shows "of_int m * 2 powr of_int j \<le> to_double x"
proof -
  have "real_of_int (2 ^ 52) \<le> real_of_int m" using m(1) by (simp only: of_int_le_iff)
  then have m52: "(2::real) ^ 52 \<le> of_int m" by simp
  have "2 powr of_int (j + 52) = (2::real) ^ 52 * 2 powr of_int j"
    by (simp add: powr_add)
  also have "\<dots> \<le> of_int m * 2 powr of_int j"
    using m52 by simp
  finally have lo: "2 powr of_int (j + 52) \<le> x" using le by linarith
  then have b: "j + 52 \<le> binade x" using x by (intro binade_ge)
  show ?thesis
  proof (cases "binade x = j + 52")
    case True
    then have u: "ulp x = 2 powr of_int j" by (simp add: ulp_def)
    have "of_int m \<le> x / ulp x" using le unfolding u by (simp add: pos_le_divide_eq)
    then have "m \<le> round_even (x / ulp x)" by (rule round_even_ge)
    then have "of_int m * ulp x \<le> of_int (round_even (x / ulp x)) * ulp x"
      using ulp_pos [of x] by (simp only: mult_le_cancel_right_pos of_int_le_iff)
    then show ?thesis using x by (simp add: to_double_def u)
  next
    case False
    then have b': "j + 53 \<le> binade x" using b by simp
    then have "- 1022 < binade x" using j by simp
    then have "2 powr of_int (binade x) \<le> x" using x by (intro binade_lower)
    moreover have "2 powr of_int (binade x) = of_int (2 ^ 52) * ulp x"
      by (simp add: ulp_def powr_diff powr_realpow [symmetric])
    ultimately have "of_int (2 ^ 52) \<le> x / ulp x"
      using ulp_pos [of x] by (simp add: pos_le_divide_eq)
    then have "2 ^ 52 \<le> round_even (x / ulp x)" by (rule round_even_ge)
    then have "of_int (2 ^ 52) * ulp x \<le> of_int (round_even (x / ulp x)) * ulp x"
      using ulp_pos [of x] by (simp only: mult_le_cancel_right_pos of_int_le_iff)
    then have "2 powr of_int (binade x) \<le> to_double x"
      using x \<open>2 powr of_int (binade x) = of_int (2 ^ 52) * ulp x\<close> by (simp add: to_double_def)
    moreover have "real_of_int m < real_of_int (2 ^ 53)" using m(2) by (simp only: of_int_less_iff)
    then have "of_int m * 2 powr of_int j < (2::real) ^ 53 * 2 powr of_int j" by simp
    moreover have "(2::real) ^ 53 * 2 powr of_int j = 2 powr of_int (j + 53)"
      by (simp add: powr_add)
    moreover have "(2::real) powr of_int (j + 53) \<le> 2 powr of_int (binade x)"
      using b' by (simp add: powr_mono)
    ultimately show ?thesis by linarith
  qed
qed


lemma to_double_exact:
  assumes "x = of_int m * 2 powr of_int j" "2 ^ 52 \<le> m" "m < 2 ^ 53" "- 1074 \<le> j"
  shows "to_double x = x"
proof -
  have "real_of_int (2 ^ 52) \<le> real_of_int m" using assms(2) by (simp only: of_int_le_iff)
  then have "0 < real_of_int m" by simp
  then have x: "0 < x" using assms(1) by simp
  have "to_double x \<le> of_int m * 2 powr of_int j"
    using x assms by (intro to_double_le_repr) auto
  moreover have "of_int m * 2 powr of_int j \<le> to_double x"
    using x assms by (intro to_double_ge_repr) auto
  ultimately show ?thesis using assms(1) by simp
qed

lemma double_below_one:
  assumes "0 \<le> r" "r < 1" "to_double r = r"
  shows "r \<le> 1 - 1 / 2 ^ 53"
proof (cases "r = 0")
  case True
  then show ?thesis by simp
next
  case False
  then have rpos: "0 < r" using assms(1) by simp
  have b: "binade r \<le> - 1" using rpos assms(2) by (intro binade_le) auto
  show ?thesis
  proof (cases "binade r = - 1")
    case True
    then have u: "ulp r = 1 / 2 ^ 53" by (simp add: ulp_def powr_neg_numeral)
    have r: "r = of_int (round_even (r / ulp r)) * (1 / 2 ^ 53)"
      using assms(3) False by (simp add: to_double_def u)
    then have "real_of_int (round_even (r / ulp r)) < real_of_int (2 ^ 53)"
      using assms(2) by simp
    then have "round_even (r / ulp r) < 2 ^ 53" by (simp only: of_int_less_iff)
    then have "round_even (r / ulp r) \<le> 2 ^ 53 - 1" by simp
    then have "real_of_int (round_even (r / ulp r)) \<le> real_of_int (2 ^ 53 - 1)"
      by (simp only: of_int_le_iff)
    then have "of_int (round_even (r / ulp r)) * (1 / 2 ^ 53) \<le> (1::real) - 1 / 2 ^ 53"
      by simp
    then show ?thesis using r by simp
  next
    case False
    then have "binade r + 1 \<le> - 1" using b by simp
    then have "(2::real) powr of_int (binade r + 1) \<le> 2 powr of_int (- 1)"
      by (simp only: powr_le_cancel_iff of_int_le_iff)
    then have "r < 1 / 2" using binade_upper [OF rpos] by (simp add: powr_neg_numeral)
    then show ?thesis by simp
  qed
qed

lemma product_bound:
  assumes "0 \<le> rnd" "rnd \<le> 1 - 1 / 2 ^ 53"
  shows "0 \<le> to_double (rnd * 900000) \<and> to_double (rnd * 900000) \<le> 900000 - 1 / 2 ^ 33"
proof -
  let ?x = "rnd * 900000"
  have x0: "0 \<le> ?x" using assms(1) by simp
  have xle: "?x \<le> 900000 - 900000 / 2 ^ 53" using assms(2) by simp
  have a: "(900000::real) - 1 / 2 ^ 33 = of_int 7730941132799999 * 2 powr of_int (- 33)"
    by (simp add: powr_neg_numeral)
  have up: "to_double ?x \<le> 900000 - 1 / 2 ^ 33"
  proof (cases "?x \<le> 900000 - 1 / 2 ^ 33")
    case True
    show ?thesis
    proof (cases "?x = 0")
      case True
      then show ?thesis by (simp add: to_double_def)
    next
      case False
      then have "0 < ?x" using x0 by linarith
      then have "to_double ?x \<le> of_int 7730941132799999 * 2 powr of_int (- 33)"
        using True unfolding a by (intro to_double_le_repr) auto
      then show ?thesis unfolding a .
    qed
  next
    case False
    then have lo: "900000 - 1 / 2 ^ 33 < ?x" by simp
    then have xpos: "0 < ?x" by simp
    have "binade ?x \<le> 19"
      using xpos xle by (intro binade_le) auto
    moreover have "19 \<le> binade ?x"
      using xpos lo by (intro binade_ge) auto
    ultimately have b: "binade ?x = 19" by simp
    have u: "ulp ?x = 1 / 2 ^ 33" by (simp add: ulp_def b powr_neg_numeral)
    have "?x / ulp ?x < of_int 7730941132799999 + 1 / 2"
      using xle unfolding u by simp
    then have "round_even (?x / ulp ?x) \<le> 7730941132799999" by (rule round_even_below_half)
    then have "real_of_int (round_even (?x / ulp ?x)) \<le> 7730941132799999"
      by (simp only: of_int_le_iff [of _ 7730941132799999, where ?'a = real, simplified])
    then show ?thesis using xpos by (simp add: to_double_def u)
  qed
  show ?thesis using up to_double_nonneg [OF x0] by simp
qed

lemma sum_bound:
  assumes "100000 \<le> y" "y \<le> 1000000 - 1 / 2 ^ 33"
  shows "100000 \<le> to_double y \<and> to_double y < 1000000"
proof -
  have ypos: "0 < y" using assms(1) by simp
  have hi: "(1000000::real) - 1 / 2 ^ 33 = of_int 8589934591999999 * 2 powr of_int (- 33)"
    by (simp add: powr_neg_numeral)
  have lo: "(100000::real) = of_int 6871947673600000 * 2 powr of_int (- 36)"
    by (simp add: powr_neg_numeral)
  have "to_double y \<le> of_int 8589934591999999 * 2 powr of_int (- 33)"
    using ypos assms(2) unfolding hi by (intro to_double_le_repr) auto
  moreover have "of_int 6871947673600000 * 2 powr of_int (- 36) \<le> to_double y"
    using ypos assms(1) unfolding lo by (intro to_double_ge_repr) auto
  ultimately show ?thesis unfolding hi [symmetric] lo [symmetric] by simp
qed

text \<open>The generated code has six digits.\<close>

lemma generate_otp_range:
  assumes "is_draw rnd"
  shows "100000 \<le> generate_otp rnd \<and> generate_otp rnd \<le> 999999"
proof -
  let ?p = "to_double (rnd * 900000)"
  have r: "0 \<le> rnd" "rnd \<le> 1 - 1 / 2 ^ 53"
    using assms double_below_one [of rnd] by (simp_all add: is_draw_def)
  have p: "0 \<le> ?p \<and> ?p \<le> 900000 - 1 / 2 ^ 33" using r by (rule product_bound)
  have s: "100000 \<le> to_double (100000 + ?p) \<and> to_double (100000 + ?p) < 1000000"
    using p by (intro sum_bound) auto
  have "100000 \<le> \<lfloor>to_double (100000 + ?p)\<rfloor>" using s by (simp add: le_floor_iff)
  moreover have "\<lfloor>to_double (100000 + ?p)\<rfloor> < 1000000" using s by (simp add: floor_less_iff)
  ultimately show ?thesis by (simp add: generate_otp_def)
qed

text \<open>Two draws and the codes they give, for the examples.\<close>

lemma is_draw_half: "is_draw (1/2)"
proof -
  have "to_double (1/2) = 1/2"
    by (rule to_double_exact [of _ 4503599627370496 "- 53"]) (simp_all add: powr_neg_numeral)
  then show ?thesis by (simp add: is_draw_def)
qed

lemma is_draw_quarter: "is_draw (1/4)"
proof -
  have "to_double (1/4) = 1/4"
    by (rule to_double_exact [of _ 4503599627370496 "- 54"]) (simp_all add: powr_neg_numeral)
  then show ?thesis by (simp add: is_draw_def)
qed

lemma generate_otp_half: "generate_otp (1/2) = 550000"
proof -
  have "to_double 450000 = 450000"
    by (rule to_double_exact [of _ 7730941132800000 "- 34"]) (simp_all add: powr_neg_numeral)
  moreover have "to_double 550000 = 550000"
    by (rule to_double_exact [of _ 4724464025600000 "- 33"]) (simp_all add: powr_neg_numeral)
  ultimately show ?thesis by (simp add: generate_otp_def)
qed

lemma generate_otp_quarter: "generate_otp (1/4) = 325000"
proof -
  have "to_double 225000 = 225000"
    by (rule to_double_exact [of _ 7730941132800000 "- 35"]) (simp_all add: powr_neg_numeral)
  moreover have "to_double 325000 = 325000"
    by (rule to_double_exact [of _ 5583457484800000 "- 34"]) (simp_all add: powr_neg_numeral)
  ultimately show ?thesis by (simp add: generate_otp_def)
qed

section \<open>Properties of the store operations\<close>

lemma store_inv_empty: "store_inv Map.empty"
  by (simp add: store_inv_def)

lemma store_inv_set_prop:
  "store_inv store \<Longrightarrow> 100000 \<le> n \<Longrightarrow> n \<le> 999999 \<Longrightarrow> store_inv (set_prop store k n)"
  by (simp add: store_inv_def set_prop_def)

lemma store_inv_delete_prop: "store_inv store \<Longrightarrow> store_inv (delete_prop store k)"
  by (simp add: store_inv_def delete_prop_def)

lemma store_inv_issue:
  "store_inv store \<Longrightarrow> is_draw rnd \<Longrightarrow> store_inv (snd (otp_issue rnd store p))"
  using generate_otp_range [of rnd] by (simp add: otp_issue_def Let_def store_inv_set_prop)

lemma store_inv_verify: "store_inv store \<Longrightarrow> store_inv (snd (otp_verify tn store p c))"
  by (simp add: otp_verify_def store_inv_delete_prop)

lemma store_inv_send:
  assumes "store_inv store" "is_draw rnd"
  shows "store_inv (snd (send_otp_handler deliver rnd store phone))"
proof -
  have "\<And>p. store_inv (snd (otp_issue rnd store p))"
    using assms by (rule store_inv_issue)
  then have "\<And>p otp store'. otp_issue rnd store p = (otp, store') \<Longrightarrow> store_inv store'"
    by (metis snd_conv)
  then show ?thesis
    using assms(1) by (auto simp: send_otp_handler_def split: option.splits prod.splits)
qed

lemma store_inv_verify_handler:
  assumes "store_inv store"
  shows "store_inv (snd (snd (verify_otp_handler tn sign store phone c)))"
proof -
  have "\<And>p. store_inv (snd (otp_verify tn store p c))"
    using assms by (rule store_inv_verify)
  then have "\<And>p m store'. otp_verify tn store p c = (m, store') \<Longrightarrow> store_inv store'"
    by (metis snd_conv)
  then show ?thesis
    using assms by (auto simp: verify_otp_handler_def split: option.splits prod.splits)
qed

lemma pending_truthy:
  "store_inv store \<Longrightarrow> store p = Some n \<Longrightarrow> truthy_prop (get_prop store p)"
  by (fastforce simp: store_inv_def get_prop_def)

text \<open>A pending code is compared with the submitted value and consumed on a match.\<close>

lemma verify_pending:
  "store_inv store \<Longrightarrow> store p = Some n \<Longrightarrow>
     otp_verify tn store p c =
       (if loose_eq tn (PNum n) c then (True, store(p := None)) else (False, store))"
  using pending_truthy [of store p n]
  by (simp add: otp_verify_def get_prop_def delete_prop_def)

text \<open>An inherited value equals no submitted value but a string.\<close>

lemma inherited_not_string:
  "\<forall>s. c \<noteq> JStr s \<Longrightarrow> \<not> loose_eq tn (inherited k) c \<or> inherited k = PUndefined"
  by (cases c) (simp_all add: inherited_def)

lemma verify_absent_not_string:
  "store p = None \<Longrightarrow> \<forall>s. c \<noteq> JStr s \<Longrightarrow> otp_verify tn store p c = (False, store)"
  using inherited_not_string [of c tn p] by (auto simp: otp_verify_def get_prop_def)

lemma verify_absent_ordinary:
  "store p = None \<Longrightarrow> inherited p = PUndefined \<Longrightarrow> otp_verify tn store p c = (False, store)"
  by (simp add: otp_verify_def get_prop_def)

text \<open>
  Without a pending code verify answers true for exactly these submissions: the string
  an inherited value of the key converts to.
\<close>

lemma verify_absent_iff:
  assumes "store p = None"
  shows "fst (otp_verify tn store p c) \<longleftrightarrow>
           (\<exists>s. c = JStr s \<and>
              (inherited p = PObjectPrototype \<and> s = ''[object Object]''
               \<or> (\<exists>f. inherited p = PFunction f \<and> s = native_source f)))"
proof (cases "inherited p")
  case PUndefined
  then show ?thesis using assms by (simp add: otp_verify_def get_prop_def)
next
  case (PNum n)
  then show ?thesis by (simp add: inherited_def split: if_splits)
next
  case (PFunction f)
  then show ?thesis using assms by (cases c) (simp_all add: otp_verify_def get_prop_def)
next
  case PObjectPrototype
  then show ?thesis using assms by (cases c) (simp_all add: otp_verify_def get_prop_def)
qed

text \<open>
  On a key that names nothing inherited, and for a submitted value that is no string on
  any key, verify answers true exactly for a pending code that equals the submitted
  value.
\<close>

lemma otp_verify_fail_closed:
  assumes "store_inv store" and "inherited p = PUndefined \<or> (\<forall>s. c \<noteq> JStr s)"
  shows "otp_verify tn store p c =
           (case store p of
              Some n \<Rightarrow> if loose_eq tn (PNum n) c then (True, store(p := None)) else (False, store)
            | None \<Rightarrow> (False, store))"
proof (cases "store p")
  case None
  then show ?thesis
    using assms(2) verify_absent_not_string [of store p c tn]
      verify_absent_ordinary [of store p tn c]
    by auto
next
  case (Some n)
  then show ?thesis using verify_pending [OF assms(1) Some, of tn c] by simp
qed

text \<open>Every key but \<^verbatim>\<open>__proto__\<close> receives the generated code, over any earlier one.\<close>

lemma issue_stores:
  "p \<noteq> ''__proto__'' \<Longrightarrow>
     otp_issue rnd store p = (generate_otp rnd, store(p \<mapsto> generate_otp rnd))"
  by (simp add: otp_issue_def Let_def set_prop_def)

text \<open>
  On every key but \<^verbatim>\<open>__proto__\<close> the issued code verifies once: the first verify
  consumes the entry, the second is refused.
\<close>

lemma issue_verify_once:
  assumes "p \<noteq> ''__proto__''" "is_draw rnd" "store_inv store"
  shows "otp_verify tn (snd (otp_issue rnd store p)) p (JNum (real_of_int (generate_otp rnd)))
           = (True, store(p := None))
         \<and> otp_verify tn (store(p := None)) p (JNum (real_of_int (generate_otp rnd)))
           = (False, store(p := None))"
proof -
  let ?c = "generate_otp rnd"
  have s: "snd (otp_issue rnd store p) = store(p \<mapsto> ?c)"
    using assms(1) by (simp add: issue_stores)
  have inv: "store_inv (store(p \<mapsto> ?c))"
    using store_inv_issue [OF assms(3) assms(2), of p] s by simp
  have "otp_verify tn (store(p \<mapsto> ?c)) p (JNum (real_of_int ?c)) = (True, store(p := None))"
    using verify_pending [OF inv, of p ?c tn "JNum (real_of_int ?c)"] by simp
  moreover have "otp_verify tn (store(p := None)) p (JNum (real_of_int ?c))
                   = (False, store(p := None))"
    by (rule verify_absent_not_string) simp_all
  ultimately show ?thesis using s by simp
qed

text \<open>
  On every key but \<^verbatim>\<open>__proto__\<close> a wrong code after an issue is refused and leaves the
  entry, so that the right code is still accepted afterwards.
\<close>

lemma wrong_code_keeps_entry:
  assumes "p \<noteq> ''__proto__''" "is_draw rnd" "store_inv store"
    and "\<not> loose_eq tn (PNum (generate_otp rnd)) wrong"
  shows "otp_verify tn (snd (otp_issue rnd store p)) p wrong = (False, snd (otp_issue rnd store p))
         \<and> fst (otp_verify tn (snd (otp_issue rnd store p)) p
                  (JNum (real_of_int (generate_otp rnd))))"
proof -
  have s: "snd (otp_issue rnd store p) = store(p \<mapsto> generate_otp rnd)"
    using assms(1) by (simp add: issue_stores)
  have inv: "store_inv (store(p \<mapsto> generate_otp rnd))"
    using store_inv_issue [OF assms(3) assms(2), of p] s by simp
  show ?thesis
    using verify_pending [OF inv, of p "generate_otp rnd" tn] assms(4) s by simp
qed

text \<open>
  On every key but \<^verbatim>\<open>__proto__\<close> a second issue replaces the first code: the first
  code is refused and leaves the entry, the second code is accepted.
\<close>

lemma issue_twice:
  assumes "p \<noteq> ''__proto__''" "is_draw r2" "store_inv store"
    and "generate_otp r1 \<noteq> generate_otp r2"
  shows "otp_verify tn (snd (otp_issue r2 (snd (otp_issue r1 store p)) p)) p
             (JNum (real_of_int (generate_otp r1)))
           = (False, store(p \<mapsto> generate_otp r2))
         \<and> otp_verify tn (store(p \<mapsto> generate_otp r2)) p (JNum (real_of_int (generate_otp r2)))
           = (True, store(p := None))"
proof -
  have s: "snd (otp_issue r2 (snd (otp_issue r1 store p)) p) = store(p \<mapsto> generate_otp r2)"
    using assms(1) by (simp add: issue_stores)
  have inv: "store_inv (store(p \<mapsto> generate_otp r2))"
    using store_inv_issue [OF assms(3) assms(2), of p] assms(1)
    by (simp add: issue_stores)
  show ?thesis
    using verify_pending [OF inv, of p "generate_otp r2" tn] assms(4) s by simp
qed

text \<open>
  On every key but \<^verbatim>\<open>__proto__\<close> a failed delivery answers 500 and leaves the new code
  in the store.
\<close>

lemma send_failure_keeps_code:
  assumes "p \<noteq> []" "p \<noteq> ''__proto__''" "\<not> deliver p (generate_otp rnd)"
  shows "send_otp_handler deliver rnd store (Some p)
           = (respond 500 False ''Failed to send OTP'', store(p \<mapsto> generate_otp rnd))"
  using assms by (simp add: send_otp_handler_def issue_stores)

lemma store_inv_handle:
  "store_inv store \<Longrightarrow> draw_ok req \<Longrightarrow> store_inv (handle tn sign store req)"
  by (cases req) (simp_all add: store_inv_send store_inv_verify_handler)

lemma store_inv_foldl:
  "store_inv store \<Longrightarrow> list_all draw_ok reqs \<Longrightarrow> store_inv (foldl (handle tn sign) store reqs)"
  by (induction reqs arbitrary: store) (simp_all add: store_inv_handle)

lemma store_inv_serve: "list_all draw_ok reqs \<Longrightarrow> store_inv (serve tn sign reqs)"
  by (simp add: serve_def store_inv_foldl store_inv_empty)

lemma set_prop_frame: "k \<noteq> q \<Longrightarrow> set_prop store k n q = store q"
  by (simp add: set_prop_def)

lemma delete_prop_frame: "k \<noteq> q \<Longrightarrow> delete_prop store k q = store q"
  by (simp add: delete_prop_def)

text \<open>
  The registration handler, branch by branch, on the answers of the store client:
  validation comes first and makes no store call; the existence query comes next, and a
  row, an error other than \<^verbatim>\<open>PGRST116\<close> or a thrown exception ends the request without
  an insert; the insert comes last, and its error or exception gives 500, its success
  200 with the data the insert resolved with.
\<close>

lemma add_student_handler_cases:
  "add_student_handler select_single insert_row body =
     (if \<not> (truthy (b_name body) \<and> truthy (b_phone body) \<and> truthy (b_class_name body)
            \<and> truthy (b_section body))
      then (respond 400 False ''All required fields must be provided.'', None, [])
      else if select_single (b_phone body) (b_email body) = Threw
      then (respond 500 False ''Internal server error'', None,
            [SelectSingle (b_phone body) (b_email body)])
      else if \<exists>row err. select_single (b_phone body) (b_email body) = Resolved (Some row) err
      then (respond 409 False ''Student with this phone or email already exists'', None,
            [SelectSingle (b_phone body) (b_email body)])
      else if \<exists>code. select_single (b_phone body) (b_email body) = Resolved None (Some code)
                \<and> code \<noteq> ''PGRST116''
      then (respond 500 False ''Database error'', None,
            [SelectSingle (b_phone body) (b_email body)])
      else if insert_row body = Threw
      then (respond 500 False ''Internal server error'', None,
            [SelectSingle (b_phone body) (b_email body), InsertRow body])
      else if \<exists>data msg. insert_row body = Resolved data (Some msg)
      then (respond 500 False ''Database error'', None,
            [SelectSingle (b_phone body) (b_email body), InsertRow body])
      else (respond 200 True ''Student added successfully'',
            (case insert_row body of Resolved data error \<Rightarrow> data | Threw \<Rightarrow> None),
            [SelectSingle (b_phone body) (b_email body), InsertRow body]))"
  by (auto simp: add_student_handler_def split: store_result.splits)

text \<open>An absent field is falsy, so a request without a required field is answered 400.\<close>

lemma add_student_absent_field:
  "b_name body = JUndefined \<or> b_phone body = JUndefined \<or> b_class_name body = JUndefined
     \<or> b_section body = JUndefined \<Longrightarrow>
   add_student_handler select_single insert_row body =
     (respond 400 False ''All required fields must be provided.'', None, [])"
  by (auto simp: add_student_handler_def)

text \<open>A single matching row gives Conflict, whatever the email of the request.\<close>

lemma add_student_one_match_conflict:
  assumes "truthy (b_name body)" "truthy (b_phone body)" "truthy (b_class_name body)"
    "truthy (b_section body)"
    and "or_filter table (b_phone body) (b_email body) = [r]"
  shows "add_student_handler (select_students table) insert_row body =
           (respond 409 False ''Student with this phone or email already exists'', None,
            [SelectSingle (b_phone body) (b_email body)])"
  using assms by (simp add: add_student_handler_def select_students_def)

section \<open>The claims\<close>

text \<open>
  Claim C1 (verify answers true exactly for a pending code that equals the submitted
  one, and false without a pending entry). With no entry in the store at all, the key
  \<^verbatim>\<open>__proto__\<close> and the submitted string \<^verbatim>\<open>[object Object]\<close> pass the guard of line 86:
  verify answers true, and the handler answers 200 with a signed token.
\<close>

theorem verify_without_pending_code:
  "otp_verify to_number Map.empty ''__proto__'' (JStr ''[object Object]'') = (True, Map.empty)
   \<and> verify_otp_handler to_number jwt_sign Map.empty (Some ''__proto__'') (JStr ''[object Object]'')
       = (respond 200 True ''OTP verified successfully'', Some (jwt_sign ''__proto__''), Map.empty)"
  by (simp add: verify_otp_handler_def otp_verify_def get_prop_def inherited_def delete_prop_def)

text \<open>
  Claim C2 (issue stores the generated code under the phone key). For the key
  \<^verbatim>\<open>__proto__\<close> the assignment of line 68 stores nothing: the store stays empty and a
  read of the key does not give the issued code.
\<close>

theorem issue_proto_key_not_stored:
  "snd (otp_issue rnd Map.empty ''__proto__'') = Map.empty
   \<and> get_prop (snd (otp_issue rnd Map.empty ''__proto__'')) ''__proto__''
       \<noteq> PNum (fst (otp_issue rnd Map.empty ''__proto__''))"
  by (simp add: otp_issue_def Let_def set_prop_def get_prop_def inherited_def)

text \<open>
  Claim C3 (after issue the issued code verifies exactly once). For the key
  \<^verbatim>\<open>__proto__\<close> the first verify of the issued code is already refused.
\<close>

theorem issue_then_verify_proto_key:
  "otp_verify to_number (snd (otp_issue rnd Map.empty ''__proto__'')) ''__proto__''
       (JNum (real_of_int (fst (otp_issue rnd Map.empty ''__proto__''))))
     = (False, Map.empty)"
  by (simp add: otp_issue_def Let_def set_prop_def otp_verify_def get_prop_def inherited_def)

text \<open>
  Claim C4 (after two issues the first code is refused and the second accepted). For
  the key \<^verbatim>\<open>__proto__\<close> the second code is refused as well.
\<close>

theorem issue_twice_proto_key:
  "otp_verify to_number
       (snd (otp_issue r2 (snd (otp_issue r1 Map.empty ''__proto__'')) ''__proto__''))
       ''__proto__''
       (JNum (real_of_int
          (fst (otp_issue r2 (snd (otp_issue r1 Map.empty ''__proto__'')) ''__proto__''))))
     = (False, Map.empty)"
  by (simp add: otp_issue_def Let_def set_prop_def otp_verify_def get_prop_def inherited_def)

text \<open>
  Claim C6 (validation, existence check and insert in that order; Conflict when a
  record with the phone or the email exists, regardless of the email). In a table where
  one record has the phone of the request and another record has its email, the query
  selects two rows, \<^verbatim>\<open>.single()\<close> gives no data and the code \<^verbatim>\<open>PGRST116\<close>, line 117 takes
  that for no row found, and the handler inserts and answers 200 (here with the null
  data of an insert that returns no row) although a record with the phone exists.
\<close>

theorem add_student_two_matches_inserted:
  "''+15551234567'' \<in> set (map r_phone
      [\<lparr>r_id = 1, r_name = ''A'', r_phone = ''+15551234567'', r_email = ''a@x.org'',
        r_class_name = ''X'', r_section = ''Y''\<rparr>,
       \<lparr>r_id = 2, r_name = ''B'', r_phone = ''+15557654321'', r_email = ''b@x.org'',
        r_class_name = ''X'', r_section = ''Y''\<rparr>])
   \<and> select_students
      [\<lparr>r_id = 1, r_name = ''A'', r_phone = ''+15551234567'', r_email = ''a@x.org'',
        r_class_name = ''X'', r_section = ''Y''\<rparr>,
       \<lparr>r_id = 2, r_name = ''B'', r_phone = ''+15557654321'', r_email = ''b@x.org'',
        r_class_name = ''X'', r_section = ''Y''\<rparr>]
      (JStr ''+15551234567'') (JStr ''b@x.org'')
     = Resolved None (Some ''PGRST116'')
   \<and> add_student_handler
      (select_students
        [\<lparr>r_id = 1, r_name = ''A'', r_phone = ''+15551234567'', r_email = ''a@x.org'',
          r_class_name = ''X'', r_section = ''Y''\<rparr>,
         \<lparr>r_id = 2, r_name = ''B'', r_phone = ''+15557654321'', r_email = ''b@x.org'',
          r_class_name = ''X'', r_section = ''Y''\<rparr>])
      (\<lambda>b. Resolved None None)
      \<lparr>b_name = JStr ''C'', b_phone = JStr ''+15551234567'', b_email = JStr ''b@x.org'',
       b_class_name = JStr ''X'', b_section = JStr ''Y''\<rparr>
     = (respond 200 True ''Student added successfully'', None,
        [SelectSingle (JStr ''+15551234567'') (JStr ''b@x.org''),
         InsertRow \<lparr>b_name = JStr ''C'', b_phone = JStr ''+15551234567'',
           b_email = JStr ''b@x.org'', b_class_name = JStr ''X'', b_section = JStr ''Y''\<rparr>])"
  by (simp add: select_students_def or_filter_def add_student_handler_def)

theorem add_student_two_matches_inserted_witness:
  "status (fst (add_student_handler
      (select_students
        [\<lparr>r_id = 1, r_name = ''A'', r_phone = ''+15551234567'', r_email = ''a@x.org'',
          r_class_name = ''X'', r_section = ''Y''\<rparr>,
         \<lparr>r_id = 2, r_name = ''B'', r_phone = ''+15557654321'', r_email = ''b@x.org'',
          r_class_name = ''X'', r_section = ''Y''\<rparr>])
      (\<lambda>b. Resolved None None)
      \<lparr>b_name = JStr ''C'', b_phone = JStr ''+15551234567'', b_email = JStr ''b@x.org'',
       b_class_name = JStr ''X'', b_section = JStr ''Y''\<rparr>)) = 200"
  using add_student_two_matches_inserted by (simp add: respond_def)

text \<open>
  Claim C7: on \<^verbatim>\<open>/add-student\<close> an absent header, or one that does not start with
  \<^verbatim>\<open>Bearer \<close>, is answered 401, and a header whose token \<^verbatim>\<open>jwt.verify\<close> refuses is
  answered 403; both without any store call, and a store call is made only when the
  header carries a token that \<^verbatim>\<open>jwt.verify\<close> accepts.
\<close>

theorem add_student_requires_token:
  "(authHeader = None \<or> (\<exists>h. authHeader = Some h \<and> take 7 h \<noteq> ''Bearer '') \<longrightarrow>
      add_student_route jwt_verify select_single insert_row authHeader body =
        (respond 401 False ''Unauthorized: Token required'', None, []))
   \<and> (\<forall>h. authHeader = Some h \<and> take 7 h = ''Bearer '' \<and> \<not> jwt_verify (bearer_token h) \<longrightarrow>
      add_student_route jwt_verify select_single insert_row authHeader body =
        (respond 403 False ''Invalid or expired token'', None, []))
   \<and> (snd (snd (add_student_route jwt_verify select_single insert_row authHeader body)) \<noteq> [] \<longrightarrow>
        (\<exists>h. authHeader = Some h \<and> take 7 h = ''Bearer '' \<and> jwt_verify (bearer_token h)))"
  by (auto simp: add_student_route_def authenticateToken_def split: option.splits)

theorem add_student_requires_token_witness:
  "add_student_route (\<lambda>t. t = ''good'') (\<lambda>phone email. Resolved (Some ''row 7'') None)
      (\<lambda>b. Threw) None
      \<lparr>b_name = JStr ''A'', b_phone = JStr ''+1'', b_email = JUndefined,
       b_class_name = JStr ''X'', b_section = JStr ''Y''\<rparr>
     = (respond 401 False ''Unauthorized: Token required'', None, [])
   \<and> add_student_route (\<lambda>t. t = ''good'') (\<lambda>phone email. Resolved (Some ''row 7'') None)
      (\<lambda>b. Threw) (Some ''Basic good'')
      \<lparr>b_name = JStr ''A'', b_phone = JStr ''+1'', b_email = JUndefined,
       b_class_name = JStr ''X'', b_section = JStr ''Y''\<rparr>
     = (respond 401 False ''Unauthorized: Token required'', None, [])
   \<and> add_student_route (\<lambda>t. t = ''good'') (\<lambda>phone email. Resolved (Some ''row 7'') None)
      (\<lambda>b. Threw) (Some ''Bearer stale'')
      \<lparr>b_name = JStr ''A'', b_phone = JStr ''+1'', b_email = JUndefined,
       b_class_name = JStr ''X'', b_section = JStr ''Y''\<rparr>
     = (respond 403 False ''Invalid or expired token'', None, [])
   \<and> snd (snd (add_student_route (\<lambda>t. t = ''good'')
        (\<lambda>phone email. Resolved (Some ''row 7'') None) (\<lambda>b. Threw) (Some ''Bearer good'')
        \<lparr>b_name = JStr ''A'', b_phone = JStr ''+1'', b_email = JUndefined,
         b_class_name = JStr ''X'', b_section = JStr ''Y''\<rparr>))
     = [SelectSingle (JStr ''+1'') JUndefined]
   \<and> (\<exists>h. Some ''Bearer good'' = Some h \<and> take 7 h = ''Bearer '' \<and> bearer_token h = ''good'')"
proof -
  let ?body = "\<lparr>b_name = JStr ''A'', b_phone = JStr ''+1'', b_email = JUndefined,
                b_class_name = JStr ''X'', b_section = JStr ''Y''\<rparr>"
  let ?sel = "\<lambda>phone email :: jsval. Resolved (Some ''row 7'') None :: string store_result"
  let ?ins = "\<lambda>b :: student_body. Threw :: string store_result"
  have calls: "snd (snd (add_student_route (\<lambda>t. t = ''good'') ?sel ?ins (Some ''Bearer good'') ?body))
                 = [SelectSingle (JStr ''+1'') JUndefined]"
    by (simp add: add_student_route_def authenticateToken_def bearer_token_def
        add_student_handler_def)
  show ?thesis
    using calls
      add_student_requires_token [of None "\<lambda>t. t = ''good''" ?sel ?ins ?body]
      add_student_requires_token [of "Some ''Basic good''" "\<lambda>t. t = ''good''" ?sel ?ins ?body]
      add_student_requires_token [of "Some ''Bearer stale''" "\<lambda>t. t = ''good''" ?sel ?ins ?body]
      add_student_requires_token [of "Some ''Bearer good''" "\<lambda>t. t = ''good''" ?sel ?ins ?body]
    by (simp add: bearer_token_def)
qed

text \<open>
  Claim C8 (a send that answers 500 has stored the new code, which still verifies).
  For the phone \<^verbatim>\<open>__proto__\<close> and a delivery that fails, the handler answers 500 with
  nothing stored, and the code it generated is refused.
\<close>

theorem send_failure_proto_key:
  "send_otp_handler (\<lambda>to code. False) rnd Map.empty (Some ''__proto__'')
     = (respond 500 False ''Failed to send OTP'', Map.empty)
   \<and> otp_verify to_number
        (snd (send_otp_handler (\<lambda>to code. False) rnd Map.empty (Some ''__proto__'')))
        ''__proto__'' (JNum (real_of_int (generate_otp rnd)))
     = (False, Map.empty)"
  by (simp add: send_otp_handler_def otp_issue_def Let_def set_prop_def otp_verify_def
      get_prop_def inherited_def)

text \<open>
  Claim C9: for distinct keys \<open>p\<close> and \<open>q\<close>, issue and verify on \<open>p\<close>, and the two
  handlers called with the phone \<open>p\<close>, leave the entry of \<open>q\<close> and what a read of \<open>q\<close>
  gives as they were.
\<close>

theorem otp_frame:
  assumes "p \<noteq> q"
  shows "snd (otp_issue rnd store p) q = store q
       \<and> get_prop (snd (otp_issue rnd store p)) q = get_prop store q
       \<and> snd (otp_verify to_number store p c) q = store q
       \<and> get_prop (snd (otp_verify to_number store p c)) q = get_prop store q
       \<and> snd (send_otp_handler deliver rnd store (Some p)) q = store q
       \<and> snd (snd (verify_otp_handler to_number jwt_sign store (Some p) c)) q = store q"
proof -
  have issue: "snd (otp_issue rnd store p) q = store q"
    using assms by (simp add: otp_issue_def Let_def set_prop_frame)
  have verify: "snd (otp_verify to_number store p c) q = store q"
    using assms by (simp add: otp_verify_def delete_prop_frame)
  have send: "snd (send_otp_handler deliver rnd store (Some p)) q = store q"
    using issue by (auto simp: send_otp_handler_def split: prod.splits)
  have handler: "snd (snd (verify_otp_handler to_number jwt_sign store (Some p) c)) q = store q"
    using verify by (auto simp: verify_otp_handler_def split: prod.splits)
  show ?thesis
    using issue verify send handler by (simp add: get_prop_def)
qed

theorem otp_frame_witness:
  "''+15551234567'' \<noteq> ''+15557654321''
   \<and> snd (otp_issue (1/2) [''+15557654321'' \<mapsto> 234567] ''+15551234567'') ''+15557654321''
       = Some 234567
   \<and> snd (otp_verify decimal_to_number [''+15557654321'' \<mapsto> 234567, ''+15551234567'' \<mapsto> 550000]
            ''+15551234567'' (JStr ''550000'')) ''+15557654321''
       = Some 234567"
  using
    otp_frame [of "''+15551234567''" "''+15557654321''" "1/2" "[''+15557654321'' \<mapsto> 234567]"]
    otp_frame [of "''+15551234567''" "''+15557654321''" _
      "[''+15557654321'' \<mapsto> 234567, ''+15551234567'' \<mapsto> 550000]"
      decimal_to_number "JStr ''550000''"]
  by simp

text \<open>
  Claim C10: after every sequence of requests whose draws are doubles that
  \<^verbatim>\<open>Math.random()\<close> can give, every value in the store is an integer from 100000 to 999999;
  such a value is truthy, so for a key with a pending code the guard of verify is
  decided by the comparison with the submitted code alone.
\<close>

theorem otp_store_invariant:
  assumes "list_all draw_ok reqs"
  shows "store_inv (serve to_number jwt_sign reqs)
       \<and> (\<forall>p n. serve to_number jwt_sign reqs p = Some n \<longrightarrow>
            100000 \<le> n \<and> n \<le> 999999
            \<and> truthy_prop (get_prop (serve to_number jwt_sign reqs) p)
            \<and> (\<forall>c. fst (otp_verify to_number (serve to_number jwt_sign reqs) p c)
                    = loose_eq to_number (PNum n) c))"
proof -
  have inv: "store_inv (serve to_number jwt_sign reqs)"
    using assms by (rule store_inv_serve)
  show ?thesis
    using inv pending_truthy [OF inv] verify_pending [OF inv]
    by (auto simp: store_inv_def)
qed

theorem otp_store_invariant_witness:
  "list_all draw_ok
     [SendOtp (1/2) True (Some ''+15551234567''), SendOtp (1/4) False (Some ''+15557654321''),
      VerifyOtp (Some ''+15551234567'') (JStr ''550000'')]
   \<and> serve decimal_to_number (\<lambda>p. ''token'')
        [SendOtp (1/2) True (Some ''+15551234567''), SendOtp (1/4) False (Some ''+15557654321''),
         VerifyOtp (Some ''+15551234567'') (JStr ''550000'')] ''+15557654321'' = Some 325000
   \<and> store_inv (serve decimal_to_number (\<lambda>p. ''token'')
        [SendOtp (1/2) True (Some ''+15551234567''), SendOtp (1/4) False (Some ''+15557654321''),
         VerifyOtp (Some ''+15551234567'') (JStr ''550000'')])
   \<and> truthy_prop (get_prop (serve decimal_to_number (\<lambda>p. ''token'')
        [SendOtp (1/2) True (Some ''+15551234567''), SendOtp (1/4) False (Some ''+15557654321''),
         VerifyOtp (Some ''+15551234567'') (JStr ''550000'')]) ''+15557654321'')"
proof -
  let ?reqs = "[SendOtp (1/2) True (Some ''+15551234567''),
                SendOtp (1/4) False (Some ''+15557654321''),
                VerifyOtp (Some ''+15551234567'') (JStr ''550000'')]"
  have ok: "list_all draw_ok ?reqs" by (simp add: is_draw_half is_draw_quarter)
  have at: "serve decimal_to_number (\<lambda>p. ''token'') ?reqs ''+15557654321'' = Some 325000"
    by (simp add: serve_def send_otp_handler_def verify_otp_handler_def otp_issue_def
        otp_verify_def generate_otp_half generate_otp_quarter set_prop_def get_prop_def
        delete_prop_def decimal_to_number_def Let_def)
  show ?thesis
    using ok at otp_store_invariant [OF ok, of decimal_to_number "\<lambda>p. ''token''"]
    by blast
qed

end
